theory Spec2Isabelle
  imports Main "HOL-Library.Word"
begin

unbundle bit_operations_syntax

chapter \<open>The embedding\<close>

section \<open>Python values, .NET objects and exceptions\<close>

text \<open>
  The extractor receives its data from the vendor SDK through a .NET bridge. A value that
  reaches Python is either one of Python's built-in values (the bridge converts .NET
  primitives: a double arrives as a \<open>float\<close>, an Int32 as an \<open>int\<close>, a String as a
  \<open>str\<close>, a Boolean as a \<open>bool\<close>, null as \<open>None\<close>) or a proxy of a .NET object.

  Exceptions are values. \<open>UpstreamError\<close> stands for any exception of the SDK or the
  bridge that is none of the Python exceptions the code names.
\<close>

datatype exn =
    ValueError
  | TypeError
  | AttributeError
  | FrozenInstanceError
  | PIPointNotFoundError
  | UpstreamError string

text \<open>
  A Python \<open>float\<close> is an IEEE 754 double, kept as its 64 bits. No arithmetic is done on
  it anywhere in the code modelled here; only its truth value is read.
\<close>

datatype pyfloat = Float64 "64 word"

definition float_truthy :: "pyfloat \<Rightarrow> bool" where
  "float_truthy f = (case f of Float64 w \<Rightarrow> w AND 0x7FFFFFFFFFFFFFFF \<noteq> 0)"

text \<open>
  A .NET object is known to the code only through what the code asks of it:
  \<^item> \<open>obj_Name\<close>: \<open>None\<close> when \<open>hasattr(value, "Name")\<close> is false, otherwise
    \<open>str(value.Name)\<close>;
  \<^item> \<open>obj_ToString\<close>: \<open>None\<close> when \<open>hasattr(value, "ToString")\<close> is false, otherwise
    \<open>str(value.ToString())\<close>;
  \<^item> \<open>obj_float\<close>: what \<open>float(value)\<close> does, a float or the exception it raises;
  \<^item> \<open>obj_truthy\<close>: the truth value of the object.
\<close>

record net_object =
  obj_Name :: "string option"
  obj_ToString :: "string option"
  obj_float :: "exn + pyfloat"
  obj_truthy :: bool

datatype pyval =
    PyNone
  | PyBool bool
  | PyInt int
  | PyFloat pyfloat
  | PyStr string
  | NetObject net_object

text \<open>\<open>hasattr(v, "Name")\<close> with \<open>str(v.Name)\<close>: Python's built-in values have no such attribute.\<close>

definition attr_Name :: "pyval \<Rightarrow> string option" where
  "attr_Name v = (case v of NetObject obj \<Rightarrow> obj_Name obj | _ \<Rightarrow> None)"

text \<open>\<open>hasattr(v, "ToString")\<close> with \<open>str(v.ToString())\<close>: likewise.\<close>

definition attr_ToString :: "pyval \<Rightarrow> string option" where
  "attr_ToString v = (case v of NetObject obj \<Rightarrow> obj_ToString obj | _ \<Rightarrow> None)"

text \<open>Python's truth value of an object, as \<open>if x:\<close> and \<open>x and y\<close> read it.\<close>

definition truthy :: "pyval \<Rightarrow> bool" where
  "truthy v =
     (case v of
        PyNone \<Rightarrow> False
      | PyBool b \<Rightarrow> b
      | PyInt i \<Rightarrow> i \<noteq> 0
      | PyFloat f \<Rightarrow> float_truthy f
      | PyStr s \<Rightarrow> s \<noteq> []
      | NetObject obj \<Rightarrow> obj_truthy obj)"

section \<open>The value model\<close>

text \<open>
  Modelled from the spec: the declarations of \<open>DataQuality\<close> and \<open>PIValue\<close> live in
  \<open>pipolars/core/types.py\<close>, which is not among the sources. The spec gives
  TimestampedValue as timestamp, value and quality, with quality one of GOOD, BAD,
  SUBSTITUTED. A timestamp is an instant, kept as an integer count of ticks.
\<close>

datatype DataQuality = GOOD | BAD | SUBSTITUTED

record PIValue =
  timestamp :: int
  "value" :: pyval
  quality :: DataQuality

text \<open>
  The SDK's AFValue as \<open>_convert_value\<close> reads it: \<open>Timestamp.LocalTime\<close>, \<open>Value\<close>,
  \<open>IsGood\<close>, and \<open>Substituted\<close>, which is \<open>None\<close> when the object has no such attribute.
\<close>

record af_value =
  Timestamp_LocalTime :: int
  Value :: pyval
  IsGood :: pyval
  Substituted :: "pyval option"

section \<open>The extractor: value conversion\<close>

text \<open>
  The first half of \<open>PIPointExtractor._convert_value\<close> (points.py, lines 136-146): a value
  with a \<open>Name\<close> is a digital state and becomes its name; else a value with \<open>ToString\<close> is
  tried as a float, and only \<open>ValueError\<close> and \<open>TypeError\<close> fall back to the string; any
  other value is kept as it is.
\<close>

definition convert_payload :: "pyval \<Rightarrow> exn + pyval" where
  "convert_payload v =
     (case attr_Name v of
        Some n \<Rightarrow> Inr (PyStr n)
      | None \<Rightarrow>
          (case attr_ToString v of
             Some s \<Rightarrow>
               (case v of
                  NetObject obj \<Rightarrow>
                    (case obj_float obj of
                       Inr f \<Rightarrow> Inr (PyFloat f)
                     | Inl ValueError \<Rightarrow> Inr (PyStr s)
                     | Inl TypeError \<Rightarrow> Inr (PyStr s)
                     | Inl e \<Rightarrow> Inl e)
                | _ \<Rightarrow> Inr v)
           | None \<Rightarrow> Inr v))"

text \<open>
  The second half (lines 148-153): \<open>af_value.IsGood is False\<close> is an identity test, true
  for the Boolean \<open>False\<close> alone.
\<close>

definition convert_quality :: "af_value \<Rightarrow> DataQuality" where
  "convert_quality a =
     (if IsGood a = PyBool False then BAD
      else if (case Substituted a of None \<Rightarrow> False | Some s \<Rightarrow> truthy s) then SUBSTITUTED
      else GOOD)"

definition convert_value :: "af_value \<Rightarrow> exn + PIValue" where
  "convert_value a =
     (case convert_payload (Value a) of
        Inl e \<Rightarrow> Inl e
      | Inr v \<Rightarrow>
          Inr \<lparr>timestamp = Timestamp_LocalTime a, value = v, quality = convert_quality a\<rparr>)"

text \<open>
  The rule as the spec words it, for comparison with \<open>convert_payload\<close>: a value with a
  symbolic state yields the state's name; any other value yields a number (the float
  coercion) or, failing that, a string.
\<close>

definition spec_value_rule :: "pyval \<Rightarrow> pyval \<Rightarrow> bool" where
  "spec_value_rule v res =
     (case attr_Name v of
        Some n \<Rightarrow> res = PyStr n
      | None \<Rightarrow> (case res of PyFloat f \<Rightarrow> True | PyStr s \<Rightarrow> True | _ \<Rightarrow> False))"

text \<open>Sample upstream values: a digital state, a .NET number, a .NET object that is no number.\<close>

definition digital_state :: net_object where
  "digital_state = \<lparr>obj_Name = Some ''Open'', obj_ToString = Some ''Open'',
     obj_float = Inl TypeError, obj_truthy = True\<rparr>"

definition decimal_object :: net_object where
  "decimal_object = \<lparr>obj_Name = None, obj_ToString = Some ''2'',
     obj_float = Inr (Float64 0x4000000000000000), obj_truthy = True\<rparr>"

definition text_object :: net_object where
  "text_object = \<lparr>obj_Name = None, obj_ToString = Some ''Pt Created'',
     obj_float = Inl TypeError, obj_truthy = True\<rparr>"

definition sample :: "pyval \<Rightarrow> af_value" where
  "sample v = \<lparr>Timestamp_LocalTime = 1700000000, Value = v, IsGood = PyBool True,
     Substituted = Some (PyBool False)\<rparr>"

definition bad_and_substituted :: af_value where
  "bad_and_substituted = \<lparr>Timestamp_LocalTime = 1700000000, Value = PyFloat (Float64 0),
     IsGood = PyBool False, Substituted = Some (PyBool True)\<rparr>"

section \<open>Point configuration\<close>

text \<open>
  The members of \<open>PointType\<close> are the ones \<open>get_point_config\<close> names in its
  \<open>point_type_map\<close> (points.py, lines 185-195).
\<close>

datatype PointType =
  FLOAT16 | FLOAT32 | FLOAT64 | INT16 | INT32 | DIGITAL | TIMESTAMP | STRING | BLOB

text \<open>
  Modelled from the spec: the class \<open>PointConfig\<close> is declared in
  \<open>pipolars/core/types.py\<close>, which is not among the sources; only its callers and its
  tests are. The record has the fields the spec, \<open>get_point_config\<close> and
  \<open>tests/unit/test_types.py\<close> name. The spec says that all optional fields default to
  \<open>None\<close> (unset) or to the empty string: a numeric field is an option, \<open>None\<close> when
  unset, and a string field is empty when unset.
\<close>

record PointConfig =
  name :: string
  point_id :: int
  point_type :: PointType
  description :: string
  engineering_units :: string
  zero :: "pyfloat option"
  span :: "pyfloat option"
  display_digits :: "int option"
  typical_value :: "pyfloat option"
  value_high_alarm :: "pyfloat option"
  value_low_alarm :: "pyfloat option"
  value_high_warning :: "pyfloat option"
  value_low_warning :: "pyfloat option"
  roc_high_value :: "pyfloat option"
  roc_low_value :: "pyfloat option"
  interface_id :: "int option"
  interface_name :: string
  scan_time :: string
  source_point_id :: "int option"
  source_point_name :: string
  conversion_factor :: "pyfloat option"
  device_name :: string
  "alias" :: string

text \<open>
  Modelled from the spec: the constructor called with the three required fields only, as
  \<open>PointConfig(name="TEST", point_id=1, point_type=PointType.FLOAT64)\<close> in the tests. A
  keyword argument of a call is a record update of this value. Construction returns a
  value: it has no failing branch.
\<close>

definition PointConfig_init :: "string \<Rightarrow> int \<Rightarrow> PointType \<Rightarrow> PointConfig" where
  "PointConfig_init n i t =
     \<lparr>name = n, point_id = i, point_type = t,
      description = [], engineering_units = [],
      zero = None, span = None, display_digits = None, typical_value = None,
      value_high_alarm = None, value_low_alarm = None,
      value_high_warning = None, value_low_warning = None,
      roc_high_value = None, roc_low_value = None,
      interface_id = None, interface_name = [], scan_time = [],
      source_point_id = None, source_point_name = [],
      conversion_factor = None, device_name = [], alias = []\<rparr>"

text \<open>
  A value of the attribute dictionary that \<open>point.GetAttributes\<close> returns is known to
  \<open>get_point_config\<close> only through the built-ins it applies to it: \<open>str\<close>, \<open>int\<close>,
  \<open>float\<close> and the truth value.
\<close>

record attr_value =
  as_str :: string
  as_int :: "exn + int"
  as_float :: "exn + pyfloat"
  as_bool :: bool

text \<open>Sequencing of calls that may raise: the first exception ends the computation.\<close>

definition bind_exn :: "exn + 'a \<Rightarrow> ('a \<Rightarrow> exn + 'b) \<Rightarrow> exn + 'b" where
  "bind_exn m f = (case m of Inl e \<Rightarrow> Inl e | Inr x \<Rightarrow> f x)"

definition point_type_map :: "(string \<times> PointType) list" where
  "point_type_map =
     [(''Float16'', FLOAT16), (''Float32'', FLOAT32), (''Float64'', FLOAT64),
      (''Int16'', INT16), (''Int32'', INT32), (''Digital'', DIGITAL),
      (''Timestamp'', TIMESTAMP), (''String'', STRING), (''Blob'', BLOB)]"

definition config_attributes :: "string list" where
  "config_attributes =
     [''pointid'', ''pointtype'', ''descriptor'', ''engunits'', ''zero'', ''span'',
      ''displaydigits'', ''typicalvalue'']"

text \<open>
  The part of \<open>get_point_config\<close> after the two upstream calls (lines 184-210), on the
  attribute dictionary. \<open>attrs.get(k, d)\<close> is the \<open>case\<close> on the lookup; the built-in
  applied to a literal default gives the literal (\<open>str("Float32")\<close>, \<open>int(0)\<close>,
  \<open>float(0.0)\<close>, \<open>float(100.0)\<close>, \<open>int(-5)\<close>). The keyword arguments are evaluated in
  the order written.
\<close>

definition point_type_of :: "(string \<rightharpoonup> attr_value) \<Rightarrow> PointType" where
  "point_type_of attrs =
     (let point_type_str = (case attrs ''pointtype'' of None \<Rightarrow> ''Float32'' | Some v \<Rightarrow> as_str v)
      in case map_of point_type_map point_type_str of None \<Rightarrow> FLOAT64 | Some t \<Rightarrow> t)"

definition config_of_attributes :: "string \<Rightarrow> (string \<rightharpoonup> attr_value) \<Rightarrow> exn + PointConfig" where
  "config_of_attributes tag_name attrs =
     (let pt = point_type_of attrs in
      bind_exn (case attrs ''pointid'' of None \<Rightarrow> Inr 0 | Some v \<Rightarrow> as_int v) (\<lambda>pid.
      let d = (case attrs ''descriptor'' of None \<Rightarrow> [] | Some v \<Rightarrow> as_str v);
          u = (case attrs ''engunits'' of None \<Rightarrow> [] | Some v \<Rightarrow> as_str v) in
      bind_exn (case attrs ''zero'' of None \<Rightarrow> Inr (Float64 0) | Some v \<Rightarrow> as_float v) (\<lambda>z.
      bind_exn (case attrs ''span'' of None \<Rightarrow> Inr (Float64 0x4059000000000000)
                | Some v \<Rightarrow> as_float v) (\<lambda>s.
      bind_exn (case attrs ''displaydigits'' of None \<Rightarrow> Inr (- 5) | Some v \<Rightarrow> as_int v) (\<lambda>dd.
      bind_exn (case attrs ''typicalvalue'' of
                  None \<Rightarrow> Inr None
                | Some v \<Rightarrow> if as_bool v then map_sum id Some (as_float v) else Inr None) (\<lambda>tv.
      Inr ((PointConfig_init tag_name pid pt)
             \<lparr>description := d, engineering_units := u, zero := Some z, span := Some s,
              display_digits := Some dd, typical_value := tv\<rparr>)))))))"

text \<open>
  The SDK's types as the extractor builds and passes them. \<open>AFTime_class\<close> and
  \<open>AFTimeRange\<close> are constructors of the SDK, called with the text of a time; how the
  SDK reads that text is its own affair. The fifth argument of \<open>RecordedValues\<close> is a
  maximum count in one overload and a paging configuration in the other.
\<close>

datatype sdk_AFTime = AFTime_class string

datatype sdk_AFTimeRange = AFTimeRange sdk_AFTime sdk_AFTime

datatype AFBoundaryType = Inside | Outside | Interpolated

datatype PageType = TagCount | EventCount

datatype PIPagingConfiguration = PIPagingConfiguration PageType int

datatype count_or_paging = MaxCount int | Paged PIPagingConfiguration

datatype AFCalculationBasis = TimeWeighted | EventWeighted

datatype AFTimestampCalculation = Auto | EarliestTime | MostRecentTime

text \<open>
  One entry of what \<open>point.Summary\<close> returns, as \<open>summary\<close> reads it:
  \<open>int(summary.SummaryType)\<close> and \<open>summary.Value.Value\<close>.
\<close>

record af_summary =
  SummaryType_int :: int
  Value_Value :: pyval

text \<open>
  The upstream handle of one point: the SDK methods the extractor calls on it. Each may
  raise. What they return is the vendor's business; the extractor's functions take the
  handle as a parameter.
\<close>

record pi_point =
  GetAttributes :: "string list \<Rightarrow> exn + (string \<rightharpoonup> attr_value)"
  RecordedValues ::
    "sdk_AFTimeRange \<Rightarrow> AFBoundaryType \<Rightarrow> string option \<Rightarrow> bool \<Rightarrow> count_or_paging
       \<Rightarrow> exn + af_value list"
  Summary ::
    "sdk_AFTimeRange \<Rightarrow> int \<Rightarrow> AFCalculationBasis \<Rightarrow> AFTimestampCalculation
       \<Rightarrow> exn + af_summary list"

text \<open>
  \<open>self._connection.get_point(tag_name)\<close>: the handle, or the exception
  (\<open>PIPointNotFoundError\<close> when the point does not exist upstream).
\<close>

type_synonym connection = "string \<Rightarrow> exn + pi_point"

definition get_point_config :: "connection \<Rightarrow> string \<Rightarrow> exn + PointConfig" where
  "get_point_config conn tag_name =
     bind_exn (conn tag_name) (\<lambda>point.
     bind_exn (GetAttributes point config_attributes) (\<lambda>attrs.
     config_of_attributes tag_name attrs))"


definition PointType_members :: "PointType list" where
  "PointType_members = [FLOAT16, FLOAT32, FLOAT64, INT16, INT32, DIGITAL, TIMESTAMP, STRING, BLOB]"

text \<open>Sample upstream points: one without a \<open>pointtype\<close> attribute, one with an unknown type.\<close>

definition text_attr :: "string \<Rightarrow> attr_value" where
  "text_attr s = \<lparr>as_str = s, as_int = Inl ValueError, as_float = Inl ValueError,
     as_bool = (s \<noteq> [])\<rparr>"

definition int_attr :: "string \<Rightarrow> int \<Rightarrow> attr_value" where
  "int_attr s i = \<lparr>as_str = s, as_int = Inr i, as_float = Inl (UpstreamError ''unused''),
     as_bool = (i \<noteq> 0)\<rparr>"

definition point_with :: "(string \<times> attr_value) list \<Rightarrow> pi_point" where
  "point_with kvs =
     \<lparr>GetAttributes = (\<lambda>ks. Inr (map_of kvs)),
      RecordedValues = (\<lambda>tr b f i c. Inr []),
      Summary = (\<lambda>tr s b c. Inr [])\<rparr>"

definition sample_connection :: connection where
  "sample_connection tag =
     (if tag = ''UNTYPED'' then Inr (point_with [(''pointid'', int_attr ''7'' 7)])
      else if tag = ''ODD'' then Inr (point_with [(''pointtype'', text_attr ''Float128'')])
      else Inl PIPointNotFoundError)"

section \<open>The extractor: times\<close>




section \<open>The extractor: summaries\<close>






text \<open>Python's \<open>str\<close> of an integer: its decimal digits, with a sign when negative.\<close>

function str_nat :: "nat \<Rightarrow> string" where
  "str_nat n =
     (if n < 10 then [''0123456789'' ! n]
      else str_nat (n div 10) @ [''0123456789'' ! (n mod 10)])"
  by pat_completeness auto
termination
  by (relation "measure id") auto

declare str_nat.simps [simp del]

definition str_int :: "int \<Rightarrow> string" where
  "str_int i = (if i < 0 then CHR ''-'' # str_nat (nat (- i)) else str_nat (nat i))"








section \<open>The extractor: recorded values\<close>







section \<open>The extractor: paginated retrieval\<close>










section \<open>Client construction\<close>

text \<open>
  Modelled from the spec: the class \<open>PIClient\<close> (\<open>pipolars/api/client.py\<close>) and the
  configuration classes \<open>PIServerConfig\<close> and \<open>PIConfig\<close> (\<open>pipolars/core/config.py\<close>)
  are not among the sources; only their tests are. Of a server configuration the tests
  read the host alone, of a full configuration the server.
\<close>

record PIServerConfig =
  host :: string

record PIConfig =
  server :: PIServerConfig

text \<open>
  Modelled from the spec: \<open>PIServerConfig()\<close> has the host \<open>localhost\<close>
  (\<open>test_config_default\<close>).
\<close>

definition PIServerConfig_init :: PIServerConfig where
  "PIServerConfig_init = \<lparr>host = ''localhost''\<rparr>"

text \<open>
  The first argument of \<open>PIClient\<close> as the tests pass it: \<open>None\<close>, a string, or a server
  configuration. An argument of a call is given or left out.
\<close>

datatype server_value = NoServer | ServerName string | ServerConfig PIServerConfig

datatype 'a argument = Omitted | Given 'a

text \<open>
  Whitespace as Python's \<open>str.strip()\<close> and \<open>str.isspace()\<close> take it, for ASCII text:
  tab, line feed, vertical tab, form feed, carriage return, the four separators
  \<open>0x1C\<close> to \<open>0x1F\<close>, and the space.
\<close>

definition is_whitespace :: "char \<Rightarrow> bool" where
  "is_whitespace c \<longleftrightarrow>
     (let n = of_char c :: nat in (9 \<le> n \<and> n \<le> 13) \<or> (28 \<le> n \<and> n \<le> 32))"

definition is_blank :: "string \<Rightarrow> bool" where
  "is_blank s \<longleftrightarrow> list_all is_whitespace s"

text \<open>
  Modelled from the spec: server-name defaulting. An explicit full configuration takes
  precedence over the server argument; otherwise an omitted, \<open>None\<close>, empty or
  whitespace-only server gives the host \<open>localhost\<close>, a non-blank name is the host as it
  is written, and a server configuration is used as the server (\<open>test_server_config_object\<close>).
  The result is the client's \<open>config\<close>.
\<close>

definition PIClient_config :: "server_value argument \<Rightarrow> PIConfig argument \<Rightarrow> PIConfig" where
  "PIClient_config server_arg config_arg =
     (case config_arg of
        Given config \<Rightarrow> config
      | Omitted \<Rightarrow>
          (case server_arg of
             Omitted \<Rightarrow> \<lparr>server = PIServerConfig_init\<rparr>
           | Given NoServer \<Rightarrow> \<lparr>server = PIServerConfig_init\<rparr>
           | Given (ServerName s) \<Rightarrow>
               if is_blank s then \<lparr>server = PIServerConfig_init\<rparr> else \<lparr>server = \<lparr>host = s\<rparr>\<rparr>
           | Given (ServerConfig sc) \<Rightarrow> \<lparr>server = sc\<rparr>))"

section \<open>Analysis records\<close>

text \<open>
  Modelled from the spec: the class \<open>AnalysisInfo\<close> and the enumeration
  \<open>AnalysisStatus\<close> are declared in \<open>pipolars/core/types.py\<close>, which is not among the
  sources; only their tests are. The spec says the record is immutable: any attempt to
  mutate a field after construction must fail. An instance of a dataclass is kept as
  its frozen flag and its attributes by name; the defaults are those the spec and
  \<open>test_default_values\<close> give.
\<close>

datatype AnalysisStatus = RUNNING | STOPPED | ERROR | UNKNOWN

datatype field_value =
    FNone
  | FStr string
  | FBool bool
  | FInt int
  | FTuple "string list"
  | FStatus AnalysisStatus

record dataclass_instance =
  is_frozen :: bool
  attributes :: "(string \<times> field_value) list"

definition AnalysisInfo_optional :: "(string \<times> field_value) list" where
  "AnalysisInfo_optional =
     [(''description'', FStr []), (''target_id'', FStr []), (''target_name'', FStr []),
      (''target_path'', FStr []), (''template_id'', FStr []), (''template_name'', FStr []),
      (''template_description'', FStr []), (''status'', FStatus UNKNOWN),
      (''is_enabled'', FBool False), (''categories'', FTuple []),
      (''time_rule_plugin_id'', FStr []), (''time_rule_config_string'', FStr []),
      (''analysis_rule_max_queue_size'', FNone), (''group_id'', FStr []),
      (''priority'', FNone), (''maximum_queue_time'', FStr []),
      (''auto_created_event_frame_count'', FNone), (''output_attributes'', FTuple [])]"

text \<open>
  Modelled from the spec: the constructor, with the three required fields and the
  keyword arguments of the call. A keyword that names no optional field is a
  \<open>TypeError\<close>, as for every Python call.
\<close>

definition AnalysisInfo_init ::
  "string \<Rightarrow> string \<Rightarrow> string \<Rightarrow> (string \<times> field_value) list \<Rightarrow> exn + dataclass_instance" where
  "AnalysisInfo_init n i p kwargs =
     (if list_all (\<lambda>(k, v). k \<in> set (map fst AnalysisInfo_optional)) kwargs
      then Inr \<lparr>is_frozen = True,
                attributes =
                  [(''name'', FStr n), (''id'', FStr i), (''path'', FStr p)] @
                  map (\<lambda>(k, d). (k, case map_of kwargs k of Some v \<Rightarrow> v | None \<Rightarrow> d))
                    AnalysisInfo_optional\<rparr>
      else Inl TypeError)"

text \<open>
  Modelled from the spec: assignment to an attribute of a dataclass instance,
  \<open>obj.fld = v\<close>: what the statement does, and the instance after it. A frozen instance
  refuses it.
\<close>

definition dataclass_setattr ::
  "dataclass_instance \<Rightarrow> string \<Rightarrow> field_value \<Rightarrow> (exn + unit) \<times> dataclass_instance" where
  "dataclass_setattr obj fld v =
     (if is_frozen obj then (Inl FrozenInstanceError, obj)
      else (Inr (), obj\<lparr>attributes := (fld, v) # filter (\<lambda>(k, x). k \<noteq> fld) (attributes obj)\<rparr>))"

section \<open>The extraction scripts: output and printing\<close>

text \<open>
  The scripts under \<open>examples/\<close> build dictionaries for JSON output and report on the
  console. A dictionary is its items in insertion order. \<open>JStrExn e\<close> is the string
  \<open>str(e)\<close> of an exception, whose text is the exception's own. A printed line is its
  text, or a text followed by \<open>str(e)\<close>.
\<close>

datatype json =
    JNone
  | JBool bool
  | JInt int
  | JFloat pyfloat
  | JStr string
  | JStrExn exn
  | JDict "(string \<times> json) list"






section \<open>The extraction scripts: PI points\<close>









section \<open>The extraction scripts: analyses of all databases\<close>















chapter \<open>Verification\<close>

section \<open>Value conversion\<close>

lemma convert_value_Inr_iff:
  "convert_value a = Inr r \<longleftrightarrow>
     (\<exists>v. convert_payload (Value a) = Inr v \<and>
          r = \<lparr>timestamp = Timestamp_LocalTime a, value = v, quality = convert_quality a\<rparr>)"
  by (auto simp: convert_value_def split: sum.splits)


lemma convert_payload_cases:
  "convert_payload v =
     (case attr_Name v of
        Some n \<Rightarrow> Inr (PyStr n)
      | None \<Rightarrow>
          (case attr_ToString v of
             None \<Rightarrow> Inr v
           | Some s \<Rightarrow>
               (case v of
                  NetObject obj \<Rightarrow>
                    (case obj_float obj of
                       Inr f \<Rightarrow> Inr (PyFloat f)
                     | Inl e \<Rightarrow> if e = ValueError \<or> e = TypeError then Inr (PyStr s) else Inl e)
                | _ \<Rightarrow> Inr v)))"
  by (simp add: convert_payload_def split: option.splits pyval.splits sum.splits exn.splits)

text \<open>
  Claim C1, as the code has it. For every raw value: a value with a \<open>Name\<close> converts to the
  name as a string; a value without \<open>Name\<close> but with \<open>ToString\<close> converts to its float,
  or to its \<open>ToString()\<close> text when \<open>float\<close> raises \<open>ValueError\<close> or \<open>TypeError\<close>, and
  the conversion raises when \<open>float\<close> raises anything else; a value with neither
  attribute (every built-in Python value) is returned unchanged. The quality is BAD
  exactly when \<open>IsGood\<close> is \<open>False\<close>, SUBSTITUTED exactly when it is not and
  \<open>Substituted\<close> is present and true, and GOOD otherwise.
\<close>

theorem convert_value_rule:
  "(\<forall>n. attr_Name (Value a) = Some n \<longrightarrow>
        convert_value a =
          Inr \<lparr>timestamp = Timestamp_LocalTime a, value = PyStr n, quality = convert_quality a\<rparr>)
   \<and> (\<forall>obj s f. Value a = NetObject obj \<and> obj_Name obj = None \<and> obj_ToString obj = Some s
          \<and> obj_float obj = Inr f \<longrightarrow>
        convert_value a =
          Inr \<lparr>timestamp = Timestamp_LocalTime a, value = PyFloat f, quality = convert_quality a\<rparr>)
   \<and> (\<forall>obj s e. Value a = NetObject obj \<and> obj_Name obj = None \<and> obj_ToString obj = Some s
          \<and> obj_float obj = Inl e \<and> (e = ValueError \<or> e = TypeError) \<longrightarrow>
        convert_value a =
          Inr \<lparr>timestamp = Timestamp_LocalTime a, value = PyStr s, quality = convert_quality a\<rparr>)
   \<and> (\<forall>obj s e. Value a = NetObject obj \<and> obj_Name obj = None \<and> obj_ToString obj = Some s
          \<and> obj_float obj = Inl e \<and> e \<noteq> ValueError \<and> e \<noteq> TypeError \<longrightarrow>
        convert_value a = Inl e)
   \<and> (attr_Name (Value a) = None \<and> attr_ToString (Value a) = None \<longrightarrow>
        convert_value a =
          Inr \<lparr>timestamp = Timestamp_LocalTime a, value = Value a, quality = convert_quality a\<rparr>)
   \<and> (convert_quality a = BAD \<longleftrightarrow> IsGood a = PyBool False)
   \<and> (convert_quality a = SUBSTITUTED \<longleftrightarrow>
        IsGood a \<noteq> PyBool False \<and> (\<exists>s. Substituted a = Some s \<and> truthy s))
   \<and> (convert_quality a = GOOD \<longleftrightarrow>
        IsGood a \<noteq> PyBool False \<and> \<not> (\<exists>s. Substituted a = Some s \<and> truthy s))"
proof -
  have name: "\<forall>n. attr_Name (Value a) = Some n \<longrightarrow>
        convert_value a =
          Inr \<lparr>timestamp = Timestamp_LocalTime a, value = PyStr n, quality = convert_quality a\<rparr>"
    by (simp add: convert_value_def convert_payload_cases)
  have num: "\<forall>obj s f. Value a = NetObject obj \<and> obj_Name obj = None \<and> obj_ToString obj = Some s
          \<and> obj_float obj = Inr f \<longrightarrow>
        convert_value a =
          Inr \<lparr>timestamp = Timestamp_LocalTime a, value = PyFloat f, quality = convert_quality a\<rparr>"
    by (simp add: convert_value_def convert_payload_cases attr_Name_def attr_ToString_def)
  have str: "\<forall>obj s e. Value a = NetObject obj \<and> obj_Name obj = None \<and> obj_ToString obj = Some s
          \<and> obj_float obj = Inl e \<and> (e = ValueError \<or> e = TypeError) \<longrightarrow>
        convert_value a =
          Inr \<lparr>timestamp = Timestamp_LocalTime a, value = PyStr s, quality = convert_quality a\<rparr>"
    by (auto simp add: convert_value_def convert_payload_cases attr_Name_def attr_ToString_def)
  have raise: "\<forall>obj s e. Value a = NetObject obj \<and> obj_Name obj = None \<and> obj_ToString obj = Some s
          \<and> obj_float obj = Inl e \<and> e \<noteq> ValueError \<and> e \<noteq> TypeError \<longrightarrow>
        convert_value a = Inl e"
    by (simp add: convert_value_def convert_payload_cases attr_Name_def attr_ToString_def)
  have keep: "attr_Name (Value a) = None \<and> attr_ToString (Value a) = None \<longrightarrow>
        convert_value a =
          Inr \<lparr>timestamp = Timestamp_LocalTime a, value = Value a, quality = convert_quality a\<rparr>"
    by (simp add: convert_value_def convert_payload_cases)
  have bad: "convert_quality a = BAD \<longleftrightarrow> IsGood a = PyBool False"
    by (simp add: convert_quality_def split: option.splits)
  have sub: "convert_quality a = SUBSTITUTED \<longleftrightarrow>
        IsGood a \<noteq> PyBool False \<and> (\<exists>s. Substituted a = Some s \<and> truthy s)"
    by (simp add: convert_quality_def split: option.splits)
  have good: "convert_quality a = GOOD \<longleftrightarrow>
        IsGood a \<noteq> PyBool False \<and> \<not> (\<exists>s. Substituted a = Some s \<and> truthy s)"
    by (simp add: convert_quality_def split: option.splits)
  from name num str raise keep bad sub good show ?thesis by blast
qed

theorem convert_value_rule_witness:
  "convert_value (sample (NetObject digital_state)) =
     Inr \<lparr>timestamp = 1700000000, value = PyStr ''Open'', quality = GOOD\<rparr>
   \<and> convert_value (sample (NetObject decimal_object)) =
     Inr \<lparr>timestamp = 1700000000, value = PyFloat (Float64 0x4000000000000000), quality = GOOD\<rparr>
   \<and> convert_value (sample (NetObject text_object)) =
     Inr \<lparr>timestamp = 1700000000, value = PyStr ''Pt Created'', quality = GOOD\<rparr>
   \<and> convert_value (sample (PyFloat (Float64 0x4000000000000000))) =
     Inr \<lparr>timestamp = 1700000000, value = PyFloat (Float64 0x4000000000000000), quality = GOOD\<rparr>"
proof -
  have q: "convert_quality (sample v) = GOOD" for v
    using convert_value_rule [of "sample v"] by (simp add: sample_def truthy_def)
  have 1: "convert_value (sample (NetObject digital_state)) =
     Inr \<lparr>timestamp = 1700000000, value = PyStr ''Open'', quality = GOOD\<rparr>"
    using convert_value_rule [of "sample (NetObject digital_state)"] q
    by (simp add: sample_def digital_state_def attr_Name_def)
  have 2: "convert_value (sample (NetObject decimal_object)) =
     Inr \<lparr>timestamp = 1700000000, value = PyFloat (Float64 0x4000000000000000), quality = GOOD\<rparr>"
    using convert_value_rule [of "sample (NetObject decimal_object)"] q
    by (simp add: sample_def decimal_object_def)
  have 3: "convert_value (sample (NetObject text_object)) =
     Inr \<lparr>timestamp = 1700000000, value = PyStr ''Pt Created'', quality = GOOD\<rparr>"
    using convert_value_rule [of "sample (NetObject text_object)"] q
    by (simp add: sample_def text_object_def)
  have 4: "convert_value (sample (PyFloat (Float64 0x4000000000000000))) =
     Inr \<lparr>timestamp = 1700000000, value = PyFloat (Float64 0x4000000000000000), quality = GOOD\<rparr>"
    using convert_value_rule [of "sample (PyFloat (Float64 0x4000000000000000))"] q
    by (simp add: sample_def attr_Name_def attr_ToString_def)
  from 1 2 3 4 show ?thesis by blast
qed

text \<open>
  The claim as the spec words it fails on a built-in value: an integer sample has no
  \<open>ToString\<close> attribute, so no float coercion is tried and the integer is returned as it
  is, neither a float nor a string.
\<close>

theorem convert_value_int_counterexample:
  "convert_value (sample (PyInt 3)) =
     Inr \<lparr>timestamp = 1700000000, value = PyInt 3, quality = GOOD\<rparr>
   \<and> \<not> spec_value_rule (PyInt 3) (PyInt 3)"
  by (simp add: convert_value_def convert_payload_def convert_quality_def sample_def
      attr_Name_def attr_ToString_def truthy_def spec_value_rule_def)

text \<open>
  Claim C9. BAD takes precedence over SUBSTITUTED: whenever the conversion returns, a value
  whose \<open>IsGood\<close> is \<open>False\<close> has quality BAD, whatever \<open>Substituted\<close> says, and a value
  of quality SUBSTITUTED has an \<open>IsGood\<close> that is not \<open>False\<close>.
\<close>

theorem bad_before_substituted:
  assumes "convert_value a = Inr r"
  shows "(IsGood a = PyBool False \<longrightarrow> quality r = BAD)
       \<and> (quality r = SUBSTITUTED \<longrightarrow> IsGood a \<noteq> PyBool False)"
  using assms by (auto simp: convert_value_Inr_iff convert_quality_def split: if_splits)

theorem bad_before_substituted_witness:
  "convert_value bad_and_substituted =
     Inr \<lparr>timestamp = 1700000000, value = PyFloat (Float64 0), quality = BAD\<rparr>
   \<and> quality \<lparr>timestamp = 1700000000, value = PyFloat (Float64 0), quality = BAD\<rparr> = BAD"
proof -
  have c: "convert_value bad_and_substituted =
     Inr \<lparr>timestamp = 1700000000, value = PyFloat (Float64 0), quality = BAD\<rparr>"
    by (simp add: convert_value_def convert_payload_def convert_quality_def
        bad_and_substituted_def attr_Name_def attr_ToString_def)
  from bad_before_substituted [OF c] c show ?thesis
    by (simp add: bad_and_substituted_def)
qed

section \<open>Point configuration\<close>

lemma bind_exn_Inr_iff:
  "bind_exn m f = Inr y \<longleftrightarrow> (\<exists>x. m = Inr x \<and> f x = Inr y)"
  by (cases m) (simp_all add: bind_exn_def)

lemma bind_exn_simps:
  "bind_exn (Inr x) f = f x" "bind_exn (Inl e) f = Inl e"
  by (simp_all add: bind_exn_def)

lemma config_of_attributes_point_type:
  "config_of_attributes tag attrs = Inr c \<Longrightarrow> point_type c = point_type_of attrs"
  by (auto simp: config_of_attributes_def Let_def bind_exn_Inr_iff PointConfig_init_def)

lemma PointType_members_complete: "t \<in> set PointType_members"
  by (cases t) (simp_all add: PointType_members_def)

lemma map_of_point_type_map_None:
  "s \<notin> fst ` set point_type_map \<Longrightarrow> map_of point_type_map s = None"
  by (simp add: map_of_eq_None_iff)

lemma map_of_point_type_map_Some:
  "(s, t) \<in> set point_type_map \<Longrightarrow> map_of point_type_map s = Some t"
  by (rule map_of_is_SomeI) (simp_all add: point_type_map_def)

text \<open>
  Claim C10. Whenever \<open>get_point_config\<close> returns a configuration, its point type is a
  member of \<open>PointType\<close>, and it is read off the upstream \<open>pointtype\<close> attribute with two
  different fallbacks: FLOAT32 when the attribute is absent, FLOAT64 when it is present
  and its text is none of the nine known names; a known name gives its own member.
\<close>

theorem get_point_config_point_type:
  assumes "get_point_config conn tag = Inr c"
  shows "\<exists>point attrs.
           conn tag = Inr point \<and> GetAttributes point config_attributes = Inr attrs
         \<and> point_type c \<in> set PointType_members
         \<and> (attrs ''pointtype'' = None \<longrightarrow> point_type c = FLOAT32)
         \<and> (\<forall>v. attrs ''pointtype'' = Some v \<and> as_str v \<notin> fst ` set point_type_map
                \<longrightarrow> point_type c = FLOAT64)
         \<and> (\<forall>v t. attrs ''pointtype'' = Some v \<and> (as_str v, t) \<in> set point_type_map
                \<longrightarrow> point_type c = t)"
proof -
  from assms obtain point attrs where
    p: "conn tag = Inr point" and
    a: "GetAttributes point config_attributes = Inr attrs" and
    c: "config_of_attributes tag attrs = Inr c"
    by (auto simp: get_point_config_def bind_exn_Inr_iff)
  have pt: "point_type c = point_type_of attrs"
    using c by (rule config_of_attributes_point_type)
  have absent: "attrs ''pointtype'' = None \<longrightarrow> point_type c = FLOAT32"
    by (simp add: pt point_type_of_def point_type_map_def)
  have unknown: "\<forall>v. attrs ''pointtype'' = Some v \<and> as_str v \<notin> fst ` set point_type_map
                \<longrightarrow> point_type c = FLOAT64"
    by (auto simp: pt point_type_of_def map_of_point_type_map_None)
  have known: "\<forall>v t. attrs ''pointtype'' = Some v \<and> (as_str v, t) \<in> set point_type_map
                \<longrightarrow> point_type c = t"
    by (auto simp: pt point_type_of_def map_of_point_type_map_Some)
  have member: "point_type c \<in> set PointType_members"
    by (rule PointType_members_complete)
  show ?thesis
  proof (intro exI conjI)
    show "conn tag = Inr point" by (rule p)
    show "GetAttributes point config_attributes = Inr attrs" by (rule a)
  qed (rule member absent unknown known)+
qed

lemma get_point_config_UNTYPED:
  "get_point_config sample_connection ''UNTYPED'' =
     Inr ((PointConfig_init ''UNTYPED'' 7 FLOAT32)
            \<lparr>zero := Some (Float64 0), span := Some (Float64 0x4059000000000000),
             display_digits := Some (- 5)\<rparr>)"
  by (simp add: get_point_config_def sample_connection_def point_with_def bind_exn_simps
      config_of_attributes_def point_type_of_def point_type_map_def int_attr_def
      PointConfig_init_def)

lemma get_point_config_ODD:
  "get_point_config sample_connection ''ODD'' =
     Inr ((PointConfig_init ''ODD'' 0 FLOAT64)
            \<lparr>zero := Some (Float64 0), span := Some (Float64 0x4059000000000000),
             display_digits := Some (- 5)\<rparr>)"
  by (simp add: get_point_config_def sample_connection_def point_with_def bind_exn_simps
      config_of_attributes_def point_type_of_def point_type_map_def text_attr_def
      PointConfig_init_def)

theorem get_point_config_point_type_witness:
  "(\<exists>c. get_point_config sample_connection ''UNTYPED'' = Inr c \<and> point_type c = FLOAT32)
   \<and> (\<exists>c. get_point_config sample_connection ''ODD'' = Inr c \<and> point_type c = FLOAT64)"
proof -
  obtain c1 where c1: "get_point_config sample_connection ''UNTYPED'' = Inr c1"
    using get_point_config_UNTYPED by blast
  obtain c2 where c2: "get_point_config sample_connection ''ODD'' = Inr c2"
    using get_point_config_ODD by blast
  have "point_type c1 = FLOAT32"
    using get_point_config_point_type [OF c1]
    by (auto simp: sample_connection_def point_with_def)
  moreover have "point_type c2 = FLOAT64"
    using get_point_config_point_type [OF c2]
    by (auto simp: sample_connection_def point_with_def text_attr_def point_type_map_def)
  ultimately show ?thesis using c1 c2 by blast
qed

text \<open>
  Claim C8. A \<open>PointConfig\<close> built from the three required fields alone is a value (the
  construction has no failing branch), it holds the three fields given, and every
  optional field has its default: \<open>None\<close> for the alarm thresholds, the rate-of-change
  limits, \<open>interface_id\<close>, \<open>source_point_id\<close> and \<open>conversion_factor\<close>, the empty string
  for \<open>interface_name\<close>, \<open>scan_time\<close>, \<open>source_point_name\<close>, \<open>device_name\<close> and \<open>alias\<close>.
\<close>

theorem PointConfig_required_only:
  "name (PointConfig_init n i t) = n
   \<and> point_id (PointConfig_init n i t) = i
   \<and> point_type (PointConfig_init n i t) = t
   \<and> value_high_alarm (PointConfig_init n i t) = None
   \<and> value_low_alarm (PointConfig_init n i t) = None
   \<and> value_high_warning (PointConfig_init n i t) = None
   \<and> value_low_warning (PointConfig_init n i t) = None
   \<and> roc_high_value (PointConfig_init n i t) = None
   \<and> roc_low_value (PointConfig_init n i t) = None
   \<and> interface_id (PointConfig_init n i t) = None
   \<and> interface_name (PointConfig_init n i t) = []
   \<and> scan_time (PointConfig_init n i t) = []
   \<and> source_point_id (PointConfig_init n i t) = None
   \<and> source_point_name (PointConfig_init n i t) = []
   \<and> conversion_factor (PointConfig_init n i t) = None
   \<and> device_name (PointConfig_init n i t) = []
   \<and> alias (PointConfig_init n i t) = []"
  by (simp add: PointConfig_init_def)

text \<open>
  The same defaults reach the caller of \<open>get_point_config\<close>, which passes none of the
  fourteen extended fields.
\<close>

lemma get_point_config_extended_defaults:
  assumes "get_point_config conn tag = Inr c"
  shows "value_high_alarm c = None \<and> value_low_alarm c = None
       \<and> value_high_warning c = None \<and> value_low_warning c = None
       \<and> roc_high_value c = None \<and> roc_low_value c = None
       \<and> interface_id c = None \<and> interface_name c = [] \<and> scan_time c = []
       \<and> source_point_id c = None \<and> source_point_name c = []
       \<and> conversion_factor c = None \<and> device_name c = [] \<and> alias c = []"
  using assms
  by (auto simp: get_point_config_def config_of_attributes_def Let_def bind_exn_Inr_iff
      PointConfig_init_def)

section \<open>Summaries\<close>

lemma str_int_examples: "str_int 256 = ''256''" "str_int (- 3) = ''-3''" "str_int 0 = ''0''"
  by (simp_all add: str_int_def str_nat.simps)










section \<open>Recorded values\<close>











section \<open>Paginated retrieval\<close>








section \<open>Client construction\<close>

text \<open>
  Claim C5. The client's configured host is \<open>localhost\<close> when the server argument is the
  empty string, a whitespace-only string, \<open>None\<close> or left out; a non-blank server name
  is the host as it is written; and when a full configuration is given, its host is the
  client's host, whatever the server argument.
\<close>

theorem PIClient_server_defaulting:
  "host (server (PIClient_config (Given (ServerName [])) Omitted)) = ''localhost''
   \<and> (is_blank s \<longrightarrow> host (server (PIClient_config (Given (ServerName s)) Omitted)) = ''localhost'')
   \<and> host (server (PIClient_config (Given NoServer) Omitted)) = ''localhost''
   \<and> host (server (PIClient_config Omitted Omitted)) = ''localhost''
   \<and> (\<not> is_blank s \<longrightarrow> host (server (PIClient_config (Given (ServerName s)) Omitted)) = s)
   \<and> host (server (PIClient_config server_arg (Given config))) = host (server config)"
  by (simp add: PIClient_config_def PIServerConfig_init_def is_blank_def)

theorem PIClient_server_defaulting_witness:
  "host (server (PIClient_config (Given (ServerName ''   '')) Omitted)) = ''localhost''
   \<and> host (server (PIClient_config (Given (ServerName ''my-pi-server'')) Omitted)) = ''my-pi-server''
   \<and> host (server (PIClient_config (Given (ServerName ''server-arg''))
        (Given \<lparr>server = \<lparr>host = ''config-host''\<rparr>\<rparr>))) = ''config-host''"
proof -
  have blank: "is_blank ''   ''"
    by (simp add: is_blank_def is_whitespace_def)
  have name: "\<not> is_blank ''my-pi-server''"
    by (simp add: is_blank_def is_whitespace_def)
  from PIClient_server_defaulting [of "''   ''" "Given (ServerName ''server-arg'')"
      "\<lparr>server = \<lparr>host = ''config-host''\<rparr>\<rparr>"]
    PIClient_server_defaulting [of "''my-pi-server''" Omitted "\<lparr>server = PIServerConfig_init\<rparr>"]
    blank name
  show ?thesis by simp
qed

section \<open>Analysis records\<close>

text \<open>
  Claim C6. Every \<open>AnalysisInfo\<close> that the constructor returns is frozen: for every field
  name and every value, assignment after construction fails with
  \<open>FrozenInstanceError\<close> and leaves the record as it was.
\<close>

theorem AnalysisInfo_immutable:
  assumes "AnalysisInfo_init n i p kwargs = Inr info"
  shows "dataclass_setattr info fld v = (Inl FrozenInstanceError, info)"
proof -
  from assms have "is_frozen info"
    by (auto simp: AnalysisInfo_init_def split: if_splits)
  then show ?thesis
    by (simp add: dataclass_setattr_def)
qed

theorem AnalysisInfo_immutable_witness:
  "\<exists>info. AnalysisInfo_init ''Test'' ''id'' ''/path'' [] = Inr info
     \<and> map_of (attributes info) ''name'' = Some (FStr ''Test'')
     \<and> dataclass_setattr info ''name'' (FStr ''New Name'') = (Inl FrozenInstanceError, info)"
proof -
  obtain info where info: "AnalysisInfo_init ''Test'' ''id'' ''/path'' [] = Inr info"
    by (simp add: AnalysisInfo_init_def)
  have "map_of (attributes info) ''name'' = Some (FStr ''Test'')"
    using info by (auto simp: AnalysisInfo_init_def)
  with info AnalysisInfo_immutable [OF info, of "''name''" "FStr ''New Name''"]
  show ?thesis by blast
qed

section \<open>Batch extraction of PI points\<close>












section \<open>Batch extraction of analyses\<close>











section \<open>Batch extraction: the claim\<close>





end
